theory Spec2Isabelle
  imports Complex_Main "HOL-Library.Word" "HOL-Library.Sublist"
begin

unbundle bit_operations_syntax

section \<open>Bytes, decimal printing, UTF-8\<close>

text \<open>
  A Go \<open>string\<close> or \<open>[]byte\<close> is a list of bytes; \<open>of_char\<close> reads a byte as a number.
\<close>

type_synonym bytes = string

definition dquote :: char where "dquote = CHR 0x22"
definition backslash :: char where "backslash = CHR 0x5C"

definition digit_char :: "nat \<Rightarrow> char" where
  "digit_char d = ''0123456789'' ! d"

fun digits :: "nat \<Rightarrow> string" where
  "digits n = (if n < 10 then [digit_char n] else digits (n div 10) @ [digit_char (n mod 10)])"

declare digits.simps [simp del]

text \<open>The verb \<open>%d\<close> of \<open>fmt\<close> and \<open>encoding/json\<close>'s printing of an integer.\<close>

definition itoa :: "int \<Rightarrow> string" where
  "itoa i = (if i < 0 then CHR ''-'' # digits (nat (- i)) else digits (nat i))"

text \<open>
  \<open>utf8.DecodeRune\<close>: the rune that starts the byte sequence and its width, or
  \<open>(RuneError, 1)\<close> for an invalid or short encoding (\<open>(RuneError, 0)\<close> for no bytes).
  The masks and shifts of the source are written as \<open>mod\<close> and multiplication:
  \<open>rune(p0 & mask2) << 6 | rune(b1 & maskx)\<close> is \<open>(p0 mod 32) * 64 + b1 mod 64\<close>.
\<close>

definition RuneError :: nat where "RuneError = 0xFFFD"

definition cont_byte :: "nat \<Rightarrow> bool" where
  "cont_byte b \<longleftrightarrow> 0x80 \<le> b \<and> b \<le> 0xBF"

text \<open>The range \<open>acceptRanges\<close> gives to the second byte after the first byte \<open>p0\<close>.\<close>

definition accept_lo :: "nat \<Rightarrow> nat" where
  "accept_lo p0 = (if p0 = 0xE0 then 0xA0 else if p0 = 0xF0 then 0x90 else 0x80)"

definition accept_hi :: "nat \<Rightarrow> nat" where
  "accept_hi p0 = (if p0 = 0xED then 0x9F else if p0 = 0xF4 then 0x8F else 0xBF)"

definition rune_size :: "nat \<Rightarrow> nat" where
  "rune_size p0 = (if p0 < 0xE0 then 2 else if p0 < 0xF0 then 3 else 4)"

definition DecodeRune :: "bytes \<Rightarrow> nat \<times> nat" where
  "DecodeRune p =
     (case map of_char (take 4 p) of
        [] \<Rightarrow> (RuneError, 0)
      | p0 # ps \<Rightarrow>
          if p0 < 0x80 then (p0, 1)
          else if p0 < 0xC2 \<or> 0xF4 < p0 then (RuneError, 1)
          else if length ps + 1 < rune_size p0 then (RuneError, 1)
          else (case ps of
                  [] \<Rightarrow> (RuneError, 1)
                | b1 # ps1 \<Rightarrow>
                    if b1 < accept_lo p0 \<or> accept_hi p0 < b1 then (RuneError, 1)
                    else if rune_size p0 \<le> 2 then ((p0 mod 32) * 64 + b1 mod 64, 2)
                    else (case ps1 of
                            [] \<Rightarrow> (RuneError, 1)
                          | b2 # ps2 \<Rightarrow>
                              if \<not> cont_byte b2 then (RuneError, 1)
                              else if rune_size p0 \<le> 3
                                then ((p0 mod 16) * 4096 + (b1 mod 64) * 64 + b2 mod 64, 3)
                              else (case ps2 of
                                      [] \<Rightarrow> (RuneError, 1)
                                    | b3 # _ \<Rightarrow>
                                        if \<not> cont_byte b3 then (RuneError, 1)
                                        else ((p0 mod 8) * 262144 + (b1 mod 64) * 4096
                                              + (b2 mod 64) * 64 + b3 mod 64, 4)))))"

text \<open>\<open>utf8.EncodeRune\<close> (runes are never negative here).\<close>

definition surrogate :: "nat \<Rightarrow> bool" where
  "surrogate r \<longleftrightarrow> 0xD800 \<le> r \<and> r \<le> 0xDFFF"

definition encode3 :: "nat \<Rightarrow> bytes" where
  "encode3 r = [char_of (0xE0 + r div 4096), char_of (0x80 + (r div 64) mod 64),
                char_of (0x80 + r mod 64)]"

definition EncodeRune :: "nat \<Rightarrow> bytes" where
  "EncodeRune r =
     (if r \<le> 0x7F then [char_of r]
      else if r \<le> 0x7FF then [char_of (0xC0 + r div 64), char_of (0x80 + r mod 64)]
      else if r > 0x10FFFF \<or> surrogate r then encode3 RuneError
      else if r \<le> 0xFFFF then encode3 r
      else [char_of (0xF0 + r div 262144), char_of (0x80 + (r div 4096) mod 64),
            char_of (0x80 + (r div 64) mod 64), char_of (0x80 + r mod 64)])"

text \<open>
  \<open>utf8.ValidString\<close>, and the coercion to valid UTF-8 that \<open>encoding/json\<close> applies to
  a string it prints: every byte that starts no valid encoding is replaced by U+FFFD.
\<close>

function utf8_valid :: "bytes \<Rightarrow> bool" where
  "utf8_valid [] = True"
| "utf8_valid (c # s) =
     (case DecodeRune (c # s) of
        (r, n) \<Rightarrow> if r = RuneError \<and> n = 1 then False else utf8_valid (drop n (c # s)))"
  by pat_completeness auto

lemma DecodeRune_size_pos: "DecodeRune (c # s) = (r, n) \<Longrightarrow> 0 < n"
  by (auto simp: DecodeRune_def Let_def split: if_splits list.splits)

termination utf8_valid
  by (relation "measure length") (auto dest!: DecodeRune_size_pos [OF sym])

declare utf8_valid.simps [simp del]

section \<open>\<open>encoding/json\<close>: reading a document\<close>

text \<open>
  The standard library's decoder first checks the whole input against the JSON grammar
  and then stores the values. Here the input is read into a tree; strings are kept
  unquoted (escapes resolved, invalid UTF-8 replaced by U+FFFD, as \<open>unquote\<close> does),
  numbers as their literal, and every member of an object keeps the text of its value,
  which is what a field of type \<open>json.RawMessage\<close> receives.
\<close>

datatype json =
    JNull
  | JBool bool
  | JNumber bytes
  | JString bytes
  | JArray "json list"
  | JObject "(bytes \<times> bytes \<times> json) list"

definition is_space :: "char \<Rightarrow> bool" where
  "is_space c \<longleftrightarrow> c = CHR '' '' \<or> c = CHR 0x09 \<or> c = CHR 0x0D \<or> c = CHR 0x0A"

definition skip_space :: "bytes \<Rightarrow> bytes" where
  "skip_space s = dropWhile is_space s"

definition is_digit :: "char \<Rightarrow> bool" where
  "is_digit c \<longleftrightarrow> (48::nat) \<le> of_char c \<and> of_char c \<le> (57::nat)"

definition hexval :: "char \<Rightarrow> nat option" where
  "hexval c =
     (let b = of_char c :: nat in
      if 48 \<le> b \<and> b \<le> 57 then Some (b - 48)
      else if 97 \<le> b \<and> b \<le> 102 then Some (b - 87)
      else if 65 \<le> b \<and> b \<le> 70 then Some (b - 55)
      else None)"

text \<open>\<open>getu4\<close>: the number of a \<open>\uXXXX\<close> escape at the head of the text.\<close>

definition getu4 :: "bytes \<Rightarrow> nat option" where
  "getu4 s =
     (if length s < 6 \<or> s ! 0 \<noteq> backslash \<or> s ! 1 \<noteq> CHR ''u'' then None
      else (case (hexval (s ! 2), hexval (s ! 3), hexval (s ! 4), hexval (s ! 5)) of
              (Some a, Some b, Some c, Some d) \<Rightarrow> Some (a * 4096 + b * 256 + c * 16 + d)
            | _ \<Rightarrow> None))"

definition escape_char :: "char \<Rightarrow> char option" where
  "escape_char e =
     (if e = dquote \<or> e = backslash \<or> e = CHR ''/'' then Some e
      else if e = CHR ''b'' then Some (CHR 0x08)
      else if e = CHR ''f'' then Some (CHR 0x0C)
      else if e = CHR ''n'' then Some (CHR 0x0A)
      else if e = CHR ''r'' then Some (CHR 0x0D)
      else if e = CHR ''t'' then Some (CHR 0x09)
      else None)"

definition emit :: "bytes \<Rightarrow> (bytes \<times> bytes) option \<Rightarrow> (bytes \<times> bytes) option" where
  "emit x r = map_option (\<lambda>(v, rest). (x @ v, rest)) r"

text \<open>
  The text after an opening quote: the unquoted string and the text after the closing
  quote. A control character, an unknown escape or a missing closing quote is a syntax
  error (\<open>None\<close>).
\<close>

function string_body :: "bytes \<Rightarrow> (bytes \<times> bytes) option" where
  "string_body [] = None"
| "string_body (c # s) =
     (if c = dquote then Some ([], s)
      else if c = backslash then
        (case s of
           [] \<Rightarrow> None
         | e # s' \<Rightarrow>
             if e = CHR ''u'' then
               (case getu4 (c # s) of
                  None \<Rightarrow> None
                | Some rr \<Rightarrow>
                    if surrogate rr then
                      (case getu4 (drop 4 s') of
                         None \<Rightarrow> emit (EncodeRune RuneError) (string_body (drop 4 s'))
                       | Some rr1 \<Rightarrow>
                           if rr < 0xDC00 \<and> 0xDC00 \<le> rr1 \<and> rr1 < 0xE000
                           then emit (EncodeRune ((rr - 0xD800) * 1024 + (rr1 - 0xDC00) + 0x10000))
                                  (string_body (drop 10 s'))
                           else emit (EncodeRune RuneError) (string_body (drop 4 s')))
                    else emit (EncodeRune rr) (string_body (drop 4 s')))
             else (case escape_char e of
                     None \<Rightarrow> None
                   | Some b \<Rightarrow> emit [b] (string_body s')))
      else if of_char c < (0x20::nat) then None
      else if of_char c < (0x80::nat) then emit [c] (string_body s)
      else (case DecodeRune (c # s) of
              (r, n) \<Rightarrow> emit (EncodeRune r) (string_body (drop n (c # s)))))"
  by pat_completeness auto

termination string_body
  by (relation "measure length") (auto dest!: DecodeRune_size_pos [OF sym])

declare string_body.simps [simp del]

definition scan_int :: "bytes \<Rightarrow> (bytes \<times> bytes) option" where
  "scan_int s =
     (case s of
        [] \<Rightarrow> None
      | d # r \<Rightarrow>
          if d = CHR ''0'' then Some ([d], r)
          else if is_digit d then Some (d # takeWhile is_digit r, dropWhile is_digit r)
          else None)"

definition scan_frac :: "bytes \<Rightarrow> (bytes \<times> bytes) option" where
  "scan_frac s =
     (case s of
        [] \<Rightarrow> Some ([], [])
      | c # r \<Rightarrow>
          if c = CHR ''.'' then
            (if takeWhile is_digit r = [] then None
             else Some (c # takeWhile is_digit r, dropWhile is_digit r))
          else Some ([], s))"

definition scan_sign :: "bytes \<Rightarrow> bytes \<times> bytes" where
  "scan_sign s =
     (case s of
        [] \<Rightarrow> ([], [])
      | c # r \<Rightarrow> if c = CHR ''+'' \<or> c = CHR ''-'' then ([c], r) else ([], s))"

definition scan_exp :: "bytes \<Rightarrow> (bytes \<times> bytes) option" where
  "scan_exp s =
     (case s of
        [] \<Rightarrow> Some ([], [])
      | c # r \<Rightarrow>
          if c = CHR ''e'' \<or> c = CHR ''E'' then
            (case scan_sign r of
               (sg, r') \<Rightarrow>
                 if takeWhile is_digit r' = [] then None
                 else Some (c # sg @ takeWhile is_digit r', dropWhile is_digit r'))
          else Some ([], s))"

text \<open>A number literal at the head of the text, and the text after it.\<close>

definition scan_number :: "bytes \<Rightarrow> (bytes \<times> bytes) option" where
  "scan_number s =
     (case (if take 1 s = ''-'' then (''-'', drop 1 s) else ([], s)) of
        (sg, s1) \<Rightarrow>
          (case scan_int s1 of
             None \<Rightarrow> None
           | Some (ip, s2) \<Rightarrow>
               (case scan_frac s2 of
                  None \<Rightarrow> None
                | Some (fp, s3) \<Rightarrow>
                    (case scan_exp s3 of
                       None \<Rightarrow> None
                     | Some (ep, s4) \<Rightarrow> Some (sg @ ip @ fp @ ep, s4)))))"

definition maxNestingDepth :: nat where
  "maxNestingDepth = 10000"

lemma string_body_shorter: "string_body s = Some (v, r) \<Longrightarrow> length r < length s"
proof (induction s arbitrary: v r rule: length_induct)
  case (1 s)
  have IH: "length r < length t" if "length t < length s" "string_body t = Some (w, r)" for t w r
    using 1 that by blast
  show ?case
  proof (cases s)
    case Nil
    with "1.prems" show ?thesis by (simp add: string_body.simps)
  next
    case (Cons c s')
    from "1.prems" show ?thesis
      unfolding Cons
      apply (subst (asm) string_body.simps)
      apply (auto simp: emit_def Cons split: if_splits list.splits option.splits prod.splits)
      apply (frule IH [rotated], simp add: Cons; simp)+
      apply (frule DecodeRune_size_pos)
      apply (frule IH [rotated], simp add: Cons; simp)+
      done
  qed
qed

text \<open>
  A value at nesting depth \<open>d\<close>, the elements of an array and the members of an object
  after the opening bracket. The comparisons of lengths in \<open>parse_elems\<close> and
  \<open>parse_members\<close> always hold (\<open>parse_value_shorter\<close> below); they are there for the
  termination proof.
\<close>

function parse_value :: "nat \<Rightarrow> bytes \<Rightarrow> (json \<times> bytes) option"
  and parse_elems :: "nat \<Rightarrow> bytes \<Rightarrow> (json list \<times> bytes) option"
  and parse_members :: "nat \<Rightarrow> bytes \<Rightarrow> ((bytes \<times> bytes \<times> json) list \<times> bytes) option"
where
  "parse_value d s =
     (case skip_space s of
        [] \<Rightarrow> None
      | c # r \<Rightarrow>
          if c = CHR ''{'' then
            (if maxNestingDepth < Suc d then None
             else (case skip_space r of
                     [] \<Rightarrow> None
                   | c' # r' \<Rightarrow>
                       if c' = CHR ''}'' then Some (JObject [], r')
                       else map_option (apfst JObject) (parse_members (Suc d) (c' # r'))))
          else if c = CHR ''['' then
            (if maxNestingDepth < Suc d then None
             else (case skip_space r of
                     [] \<Rightarrow> None
                   | c' # r' \<Rightarrow>
                       if c' = CHR '']'' then Some (JArray [], r')
                       else map_option (apfst JArray) (parse_elems (Suc d) (c' # r'))))
          else if c = dquote then map_option (apfst JString) (string_body r)
          else if c = CHR ''-'' \<or> is_digit c then
            map_option (apfst JNumber) (scan_number (c # r))
          else if take 4 (c # r) = ''true'' then Some (JBool True, drop 4 (c # r))
          else if take 5 (c # r) = ''false'' then Some (JBool False, drop 5 (c # r))
          else if take 4 (c # r) = ''null'' then Some (JNull, drop 4 (c # r))
          else None)"
| "parse_elems d s =
     (case parse_value d s of
        None \<Rightarrow> None
      | Some (v, r) \<Rightarrow>
          (case skip_space r of
             [] \<Rightarrow> None
           | c # r' \<Rightarrow>
               if c = CHR '']'' then Some ([v], r')
               else if c = CHR '','' \<and> length r' < length s then
                 map_option (apfst ((#) v)) (parse_elems d r')
               else None))"
| "parse_members d s =
     (case skip_space s of
        [] \<Rightarrow> None
      | q # r \<Rightarrow>
          if q \<noteq> dquote then None
          else (case string_body r of
                  None \<Rightarrow> None
                | Some (k, r1) \<Rightarrow>
                    (case skip_space r1 of
                       [] \<Rightarrow> None
                     | c # r2 \<Rightarrow>
                         if c \<noteq> CHR '':'' then None
                         else (case parse_value d (skip_space r2) of
                                 None \<Rightarrow> None
                               | Some (v, r3) \<Rightarrow>
                                   (case skip_space r3 of
                                      [] \<Rightarrow> None
                                    | c' # r4 \<Rightarrow>
                                        if c' = CHR ''}'' then
                                          Some ([(k, take (length (skip_space r2) - length r3)
                                                       (skip_space r2), v)], r4)
                                        else if c' = CHR '','' \<and> length r4 < length s then
                                          map_option
                                            (apfst ((#) (k, take (length (skip_space r2) - length r3)
                                                              (skip_space r2), v)))
                                            (parse_members d r4)
                                        else None)))))"
  by pat_completeness auto

lemma skip_space_length: "length (skip_space s) \<le> length s"
  by (simp add: skip_space_def length_dropWhile_le)

lemma skip_space_Cons_length: "skip_space s = c # r \<Longrightarrow> length r < length s"
  using skip_space_length [of s] by simp

termination parse_value
proof (relation "measure (\<lambda>x. case x of
          Inl (d, s) \<Rightarrow> 2 * length s
        | Inr (Inl (d, s)) \<Rightarrow> 2 * length s + 1
        | Inr (Inr (d, s)) \<Rightarrow> 2 * length s + 1)", goal_cases)
  case 1
  show ?case by simp
next
  case (2 d s c r c' r')
  then show ?case
    using skip_space_Cons_length [of s c r] skip_space_Cons_length [of r c' r'] by simp
next
  case (3 d s c r c' r')
  then show ?case
    using skip_space_Cons_length [of s c r] skip_space_Cons_length [of r c' r'] by simp
next
  case (4 d s)
  show ?case by simp
next
  case (5 d s x v r c r')
  then show ?case by simp
next
  case (6 d s q r x k r1 c r2)
  then show ?case
    using skip_space_Cons_length [of s q r] string_body_shorter [of r k r1]
      skip_space_Cons_length [of r1 c r2] skip_space_length [of r2]
    by simp
next
  case (7 d s q r x k r1 c r2 y v r3 c' r4)
  then show ?case by simp
qed

declare parse_value.simps [simp del] parse_elems.simps [simp del] parse_members.simps [simp del]

text \<open>\<open>json.Valid\<close> and the tree of a valid document: one value between white space.\<close>

definition json_parse :: "bytes \<Rightarrow> json option" where
  "json_parse s =
     (case parse_value 0 s of
        None \<Rightarrow> None
      | Some (v, r) \<Rightarrow> if skip_space r = [] then Some v else None)"

text \<open>Every scanner consumes input, so the comparisons of lengths never fail.\<close>

lemma dropWhile_shorter: "length (dropWhile P r) < Suc (length r)"
  by (simp add: le_imp_less_Suc length_dropWhile_le)

lemma scan_int_shorter: "scan_int s = Some (l, r) \<Longrightarrow> length r < length s"
  by (auto simp: scan_int_def dropWhile_shorter split: list.splits if_splits)

lemma scan_sign_le: "scan_sign s = (l, r) \<Longrightarrow> length r \<le> length s"
  by (auto simp: scan_sign_def split: list.splits if_splits)

lemma scan_frac_le: "scan_frac s = Some (l, r) \<Longrightarrow> length r \<le> length s"
  by (auto simp: scan_frac_def split: list.splits if_splits
      intro: order_trans [OF length_dropWhile_le])

lemma scan_exp_le: "scan_exp s = Some (l, r) \<Longrightarrow> length r \<le> length s"
  by (auto simp: scan_exp_def split: list.splits if_splits prod.splits
      dest!: scan_sign_le intro: order_trans [OF length_dropWhile_le] le_SucI)

lemma scan_number_shorter: "scan_number s = Some (l, r) \<Longrightarrow> length r < length s"
  unfolding scan_number_def
  by (auto split: option.splits if_splits prod.splits
      dest!: scan_int_shorter scan_frac_le scan_exp_le)

lemma parse_value_shorter:
  "(\<forall>v r. parse_value d s = Some (v, r) \<longrightarrow> length r < length s)"
  "(\<forall>vs r. parse_elems d s = Some (vs, r) \<longrightarrow> length r < length s)"
  "(\<forall>ms r. parse_members d s = Some (ms, r) \<longrightarrow> length r < length s)"
proof (induction d s and d s and d s rule: parse_value_parse_elems_parse_members.induct)
  case (1 d s)
  show ?case
  proof (intro allI impI)
    fix v r assume pv: "parse_value d s = Some (v, r)"
    show "length r < length s"
    proof (cases "skip_space s")
      case Nil
      with pv show ?thesis by (simp add: parse_value.simps)
    next
      case (Cons c t)
      have ts: "length t < length s" using Cons by (rule skip_space_Cons_length)
      consider (obj) "c = CHR ''{''" | (arr) "c \<noteq> CHR ''{''" "c = CHR ''[''"
        | (other) "c \<noteq> CHR ''{''" "c \<noteq> CHR ''[''" by blast
      then show ?thesis
      proof cases
        case obj
        show ?thesis
        proof (cases "skip_space t")
          case Nil
          with pv Cons obj show ?thesis by (simp add: parse_value.simps split: if_splits)
        next
          case (Cons c' t')
          have t's: "length t' < length t" using Cons by (rule skip_space_Cons_length)
          from pv \<open>skip_space s = c # t\<close> obj Cons show ?thesis
            using "1.IH"(1) [OF \<open>skip_space s = c # t\<close> obj _ Cons] ts t's
            by (subst (asm) parse_value.simps) (auto split: if_splits)
        qed
      next
        case arr
        show ?thesis
        proof (cases "skip_space t")
          case Nil
          with pv Cons arr show ?thesis by (simp add: parse_value.simps split: if_splits)
        next
          case (Cons c' t')
          have t's: "length t' < length t" using Cons by (rule skip_space_Cons_length)
          from pv \<open>skip_space s = c # t\<close> arr Cons show ?thesis
            using "1.IH"(2) [OF \<open>skip_space s = c # t\<close> arr _ Cons] ts t's
            by (subst (asm) parse_value.simps) (auto split: if_splits)
        qed
      next
        case other
        have len: "length (c # t) \<le> length s"
          using skip_space_length [of s] Cons by simp
        from pv Cons other show ?thesis
          using ts len
          apply (subst (asm) parse_value.simps)
          apply (auto split: if_splits dest!: string_body_shorter scan_number_shorter)
          done
      qed
    qed
  qed
next
  case (2 d s)
  show ?case
  proof (intro allI impI)
    fix vs r assume pe: "parse_elems d s = Some (vs, r)"
    then obtain v r1 where pv: "parse_value d s = Some (v, r1)"
      by (subst (asm) parse_elems.simps) (auto split: option.splits)
    then have r1: "length r1 < length s" using "2.IH"(1) by blast
    show "length r < length s"
    proof (cases "skip_space r1")
      case Nil
      with pe pv show ?thesis by (subst (asm) parse_elems.simps) simp
    next
      case (Cons c t)
      have "length t < length r1" using Cons by (rule skip_space_Cons_length)
      with pe pv Cons r1 show ?thesis
        using "2.IH"(2) [OF pv refl Cons]
        by (subst (asm) parse_elems.simps) (auto split: if_splits)
    qed
  qed
next
  case (3 d s)
  show ?case
  proof (intro allI impI)
    fix ms r assume pm: "parse_members d s = Some (ms, r)"
    from pm obtain q t where s: "skip_space s = q # t" and q: "q = dquote"
      by (subst (asm) parse_members.simps) (auto split: list.splits if_splits)
    from pm s q obtain k r1 where sb: "string_body t = Some (k, r1)"
      by (subst (asm) parse_members.simps) (auto split: option.splits)
    from pm s q sb obtain c r2 where r1: "skip_space r1 = c # r2" and c: "c = CHR '':''"
      by (subst (asm) parse_members.simps) (auto split: list.splits if_splits)
    from pm s q sb r1 c obtain v r3 where pv: "parse_value d (skip_space r2) = Some (v, r3)"
      by (subst (asm) parse_members.simps) (auto split: option.splits)
    have IH1: "length r3 < length (skip_space r2)"
      using "3.IH"(1) [OF s _ sb refl r1] q c pv by simp
    have chain: "length (skip_space r2) < length s"
      using skip_space_Cons_length [OF s] string_body_shorter [OF sb]
        skip_space_Cons_length [OF r1] skip_space_length [of r2] by simp
    show "length r < length s"
    proof (cases "skip_space r3")
      case Nil
      with pm s q sb r1 c pv show ?thesis by (subst (asm) parse_members.simps) simp
    next
      case (Cons c' r4)
      have "length r4 < length r3" using Cons by (rule skip_space_Cons_length)
      with pm s q sb r1 c pv Cons IH1 chain show ?thesis
        using "3.IH"(2) [OF s _ sb refl r1 _ pv refl Cons]
        by (subst (asm) parse_members.simps) (auto split: if_splits)
    qed
  qed
qed

section \<open>\<open>encoding/json\<close>: storing a document into the types of the package\<close>

text \<open>
  The decoder's errors: the input is not a JSON document, or a value does not fit the Go
  type it is stored into. A custom \<open>UnmarshalJSON\<close> may also panic; the panic passes
  through \<open>json.Unmarshal\<close>.
\<close>

datatype json_error = SyntaxError | UnmarshalTypeError

datatype panic =
    NilPointerDereference
  | TypeAssertionFailed
  | PanicError string

datatype ('e, 'a) outcome = Ok 'a | Err 'e | Panic panic

text \<open>
  A key of an object selects a struct field when it equals the field's name under
  Unicode case folding. For the ASCII names of this package these are the keys that
  differ from the name in the case of letters, in U+017F for \<open>s\<close> or in U+212A for \<open>k\<close>.
\<close>

fun fold_key :: "bytes \<Rightarrow> bytes" where
  "fold_key [] = []"
| "fold_key (c # s) =
     (if (65::nat) \<le> of_char c \<and> of_char c \<le> (90::nat) then char_of (of_char c + (32::nat)) # fold_key s
      else if take 2 (c # s) = [CHR 0xC5, CHR 0xBF] then CHR ''s'' # fold_key (drop 1 s)
      else if take 3 (c # s) = [CHR 0xE2, CHR 0x84, CHR 0xAA] then CHR ''k'' # fold_key (drop 2 s)
      else c # fold_key s)"

text \<open>The struct that \<open>request\<close> reads a response body into, and \<open>apiError\<close>.\<close>

record responseBody =
  Status :: string
  RawContent :: "bytes option"

record apiError =
  Type :: string
  Message :: string

text \<open>
  Storing the members of an object into a struct: a later member overwrites an earlier
  one, \<open>null\<close> leaves a string field as it is, a value of another kind in a string field
  is a type error, which the decoder reports after it has read all members (the flag).
  A field of type \<open>json.RawMessage\<close> takes the text of any value, also of \<open>null\<close>.
\<close>

fun responseBody_members ::
  "(bytes \<times> bytes \<times> json) list \<Rightarrow> responseBody \<Rightarrow> bool \<Rightarrow> responseBody \<times> bool" where
  "responseBody_members [] rb bad = (rb, bad)"
| "responseBody_members ((k, raw, v) # ms) rb bad =
     (if fold_key k = ''status'' then
        (case v of
           JString x \<Rightarrow> responseBody_members ms (rb\<lparr>Status := x\<rparr>) bad
         | JNull \<Rightarrow> responseBody_members ms rb bad
         | _ \<Rightarrow> responseBody_members ms rb True)
      else if fold_key k = ''content'' then
        responseBody_members ms (rb\<lparr>RawContent := Some raw\<rparr>) bad
      else responseBody_members ms rb bad)"

definition unmarshal_responseBody :: "bytes \<Rightarrow> json_error + responseBody" where
  "unmarshal_responseBody b =
     (case json_parse b of
        None \<Rightarrow> Inl SyntaxError
      | Some (JObject ms) \<Rightarrow>
          (case responseBody_members ms \<lparr>Status = [], RawContent = None\<rparr> False of
             (rb, bad) \<Rightarrow> if bad then Inl UnmarshalTypeError else Inr rb)
      | Some JNull \<Rightarrow> Inr \<lparr>Status = [], RawContent = None\<rparr>
      | Some _ \<Rightarrow> Inl UnmarshalTypeError)"

fun apiError_members ::
  "(bytes \<times> bytes \<times> json) list \<Rightarrow> apiError \<Rightarrow> bool \<Rightarrow> apiError \<times> bool" where
  "apiError_members [] e bad = (e, bad)"
| "apiError_members ((k, raw, v) # ms) e bad =
     (if fold_key k = ''type'' then
        (case v of
           JString x \<Rightarrow> apiError_members ms (e\<lparr>Type := x\<rparr>) bad
         | JNull \<Rightarrow> apiError_members ms e bad
         | _ \<Rightarrow> apiError_members ms e True)
      else if fold_key k = ''message'' then
        (case v of
           JString x \<Rightarrow> apiError_members ms (e\<lparr>Message := x\<rparr>) bad
         | JNull \<Rightarrow> apiError_members ms e bad
         | _ \<Rightarrow> apiError_members ms e True)
      else apiError_members ms e bad)"

text \<open>
  \<^verbatim>\<open>var e *apiError; err = json.Unmarshal(content, &e)\<close>: the document \<open>null\<close> leaves
  the pointer \<open>nil\<close> (\<open>None\<close>) without an error; an object is stored into a new
  \<open>apiError\<close>.
\<close>

definition unmarshal_apiError :: "bytes \<Rightarrow> json_error + apiError option" where
  "unmarshal_apiError b =
     (case json_parse b of
        None \<Rightarrow> Inl SyntaxError
      | Some (JObject ms) \<Rightarrow>
          (case apiError_members ms \<lparr>Type = [], Message = []\<rparr> False of
             (e, bad) \<Rightarrow> if bad then Inl UnmarshalTypeError else Inr (Some e))
      | Some JNull \<Rightarrow> Inr None
      | Some _ \<Rightarrow> Inl UnmarshalTypeError)"

section \<open>Errors of the package\<close>

text \<open>
  The seventeen sentinel errors, an \<open>*apiError\<close> returned as an error, and the errors
  made by \<open>fmt.Errorf\<close>: with their text, or with the text before \<open>%v\<close> and the error of
  \<open>encoding/json\<close> that \<open>%v\<close> prints.
\<close>

datatype error =
    ErrAccessDenied
  | ErrAlreadyExists
  | ErrDuplicateInvite
  | ErrGameOver
  | ErrIllegalMove
  | ErrIllegalTiles
  | ErrIllegalUserSelf
  | ErrIllegalWord
  | ErrInvalidBoardType
  | ErrInvalidID
  | ErrInvalidRuleset
  | ErrLoginRequired
  | ErrNotFound
  | ErrNotYourTurn
  | ErrUnknownEmail
  | ErrUserNotFound
  | ErrWrongPassword
  | ApiError apiError
  | Errorf string
  | ErrorfJSON string json_error

type_synonym 'a result = "(error, 'a) outcome"

definition sentinels :: "(string \<times> error) list" where
  "sentinels =
     [(''access_denied'', ErrAccessDenied),
      (''already_exists'', ErrAlreadyExists),
      (''duplicate_invite'', ErrDuplicateInvite),
      (''game_over'', ErrGameOver),
      (''illegal_move'', ErrIllegalMove),
      (''illegal_tiles'', ErrIllegalTiles),
      (''illegal_user_self'', ErrIllegalUserSelf),
      (''illegal_word'', ErrIllegalWord),
      (''invalid_board_type'', ErrInvalidBoardType),
      (''invalid_id'', ErrInvalidID),
      (''invalid_ruleset'', ErrInvalidRuleset),
      (''login_required'', ErrLoginRequired),
      (''not_found'', ErrNotFound),
      (''not_your_turn'', ErrNotYourTurn),
      (''unknown_email'', ErrUnknownEmail),
      (''user_not_found'', ErrUserNotFound),
      (''wrong_password'', ErrWrongPassword)]"

text \<open>
  \<open>convertToSentinel\<close> reads \<open>e.Type\<close>: on a \<open>nil\<close> pointer that is a run-time panic.
\<close>

definition convertToSentinel :: "apiError option \<Rightarrow> error result" where
  "convertToSentinel e =
     (case e of
        None \<Rightarrow> Panic NilPointerDereference
      | Some a \<Rightarrow>
          (case map_of sentinels (Type a) of
             Some s \<Rightarrow> Ok s
           | None \<Rightarrow> Ok (ApiError a)))"

text \<open>\<open>(*apiError).Error\<close>.\<close>

definition apiError_Error :: "apiError \<Rightarrow> string" where
  "apiError_Error e = (if Message e \<noteq> [] then Type e @ '': '' @ Message e else Type e)"

section \<open>The transport layer\<close>

type_synonym SessionID = string

definition cookie :: "SessionID \<Rightarrow> string" where
  "cookie s = ''sessionid='' @ s"

text \<open>
  \<open>http.Header\<close> maps a canonical key to its values (none for an absent key);
  \<open>Get\<close> returns the first value of a key or the empty string.
\<close>

type_synonym Header = "string \<Rightarrow> string list"


record http_Request =
  Method :: string
  URL :: string
  ReqHeader :: "(string \<times> string) list"
  ReqBody :: bytes

text \<open>
  What \<open>c.cl.Do\<close> returns when it returns a response: the status code, the headers,
  the outcome of reading the body to its end (an error text or the bytes) and the
  outcome of closing it (an error text or none).
\<close>

record http_Response =
  StatusCode :: int
  ResHeader :: Header
  ResBody :: "string + bytes"
  ResClose :: "string option"

text \<open>
  The part of \<open>net/http\<close> the client runs on: \<open>http.NewRequest\<close>, which refuses a
  method or URL with an error text, and \<open>(*http.Client).Do\<close>, which answers a request
  with an error text or a response. Both belong to the environment.
\<close>

record net_http =
  NewRequest_error :: "string \<Rightarrow> string \<Rightarrow> string option"
  Do :: "http_Request \<Rightarrow> string + http_Response"

record Client =
  cl :: net_http
  baseURL :: string

record response =
  Content :: "bytes option"
  Header :: Header

text \<open>\<open>strings.Trim(path, "/")\<close>.\<close>

definition Trim_slash :: "string \<Rightarrow> string" where
  "Trim_slash path =
     rev (dropWhile (\<lambda>c. c = CHR ''/'') (rev (dropWhile (\<lambda>c. c = CHR ''/'') path)))"

definition StatusOK :: int where "StatusOK = 200"
definition StatusInternalServerError :: int where "StatusInternalServerError = 500"

text \<open>
  \<open>request\<close> after \<open>c.cl.Do\<close> has returned a response. The deferred function closes
  the body on every path and panics if closing fails.
\<close>

definition request_response :: "http_Response \<Rightarrow> response result" where
  "request_response res =
     (case ResClose res of
        Some e \<Rightarrow> Panic (PanicError (''closing response body: '' @ e))
      | None \<Rightarrow>
          (case ResBody res of
             Inl e \<Rightarrow> Err (Errorf (''reading response body: '' @ e))
           | Inr bodyBytes \<Rightarrow>
               if length bodyBytes = 0 then
                 (if StatusCode res = StatusOK
                  then Ok \<lparr>Content = None, Header = ResHeader res\<rparr>
                  else Err (Errorf (''status code '' @ itoa (StatusCode res) @ '' (no body)'')))
               else if StatusCode res \<ge> StatusInternalServerError then
                 Err (Errorf (''status code '' @ itoa (StatusCode res) @ '': '' @ bodyBytes))
               else
                 (case unmarshal_responseBody bodyBytes of
                    Inl e \<Rightarrow>
                      Err (ErrorfJSON (''unmarshalling response body (status code ''
                             @ itoa (StatusCode res) @ ''): '') e)
                  | Inr rb \<Rightarrow>
                      if Status rb = ''error'' then
                        (case unmarshal_apiError (case RawContent rb of None \<Rightarrow> [] | Some raw \<Rightarrow> raw) of
                           Inl e \<Rightarrow>
                             Err (ErrorfJSON (''unmarshalling error response (status code ''
                                    @ itoa (StatusCode res) @ ''): '') e)
                         | Inr e \<Rightarrow>
                             (case convertToSentinel e of
                                Ok s \<Rightarrow> Err s
                              | Err x \<Rightarrow> Err x
                              | Panic x \<Rightarrow> Panic x))
                      else Ok \<lparr>Content = RawContent rb, Header = ResHeader res\<rparr>)))"

text \<open>
  The request that \<open>request\<close> builds: the URL with its trailing slash, and the headers
  added in the order of the source.
\<close>

definition new_request ::
  "Client \<Rightarrow> string \<Rightarrow> string \<Rightarrow> SessionID \<Rightarrow> bytes option \<Rightarrow> http_Request" where
  "new_request c method path session body =
     \<lparr>Method = method,
      URL = baseURL c @ ''/'' @ Trim_slash path @ ''/'',
      ReqHeader = [(''Accept'', ''application/json'')]
        @ (if body \<noteq> None then [(''Content-Type'', ''application/json'')] else [])
        @ (if session \<noteq> [] then [(''Cookie'', cookie session)] else []),
      ReqBody = (case body of None \<Rightarrow> [] | Some b \<Rightarrow> b)\<rparr>"

text \<open>
  \<open>request\<close>: the result and the requests handed to \<open>c.cl.Do\<close>, that is the network
  calls made.
\<close>

definition request ::
  "Client \<Rightarrow> string \<Rightarrow> string \<Rightarrow> SessionID \<Rightarrow> bytes option \<Rightarrow> response result \<times> http_Request list" where
  "request c method path session body =
     (case NewRequest_error (cl c) method (URL (new_request c method path session body)) of
        Some e \<Rightarrow> (Err (Errorf (''creating request: '' @ e)), [])
      | None \<Rightarrow>
          (case Do (cl c) (new_request c method path session body) of
             Inl e \<Rightarrow> (Err (Errorf (''sending request: '' @ e)), [new_request c method path session body])
           | Inr res \<Rightarrow> (request_response res, [new_request c method path session body])))"

section \<open>\<open>encoding/json\<close>: printing a value\<close>

text \<open>
  The Go values this package hands to \<open>json.Marshal\<close>: \<open>nil\<close> (also a \<open>nil\<close> slice),
  booleans, integers, strings, arrays and slices, and structs, given by the JSON names
  of their fields in the order of declaration. An \<open>any\<close> prints as the value it holds.
\<close>

datatype gval =
    GNil
  | GBool bool
  | GInt int
  | GString bytes
  | GArray "gval list"
  | GStruct "(string \<times> gval) list"

definition hex_digit :: "nat \<Rightarrow> char" where
  "hex_digit n = ''0123456789abcdef'' ! n"

text \<open>\<open>htmlSafeSet\<close>: the ASCII bytes that are printed as they are.\<close>

definition htmlSafe :: "nat \<Rightarrow> bool" where
  "htmlSafe b \<longleftrightarrow>
     0x20 \<le> b \<and> b < 0x80 \<and> b \<noteq> 0x22 \<and> b \<noteq> 0x26 \<and> b \<noteq> 0x3C \<and> b \<noteq> 0x3E \<and> b \<noteq> 0x5C"

text \<open>
  \<open>appendString\<close> with HTML escaping, as \<open>json.Marshal\<close> calls it: the text between the
  quotes. An invalid byte is printed as \<open>\ufffd\<close>.
\<close>

function quote_body :: "bytes \<Rightarrow> bytes" where
  "quote_body [] = []"
| "quote_body (c # s) =
     (if of_char c < (0x80::nat) then
        (if htmlSafe (of_char c) then c # quote_body s
         else if c = backslash \<or> c = dquote then backslash # c # quote_body s
         else if c = CHR 0x08 then backslash # CHR ''b'' # quote_body s
         else if c = CHR 0x0C then backslash # CHR ''f'' # quote_body s
         else if c = CHR 0x0A then backslash # CHR ''n'' # quote_body s
         else if c = CHR 0x0D then backslash # CHR ''r'' # quote_body s
         else if c = CHR 0x09 then backslash # CHR ''t'' # quote_body s
         else backslash # CHR ''u'' # CHR ''0'' # CHR ''0''
                # hex_digit (of_char c div 16) # hex_digit (of_char c mod 16) # quote_body s)
      else (case DecodeRune (c # s) of
              (r, n) \<Rightarrow>
                if r = RuneError \<and> n = 1 then backslash # ''ufffd'' @ quote_body s
                else if r = 0x2028 \<or> r = 0x2029 then
                  backslash # ''u202'' @ hex_digit (r mod 16) # quote_body (drop n (c # s))
                else take n (c # s) @ quote_body (drop n (c # s))))"
  by pat_completeness auto

termination quote_body
  by (relation "measure length") (auto dest!: DecodeRune_size_pos [OF sym])

declare quote_body.simps [simp del]

definition appendString :: "bytes \<Rightarrow> bytes" where
  "appendString s = dquote # quote_body s @ [dquote]"

fun commas :: "bytes list \<Rightarrow> bytes" where
  "commas [] = []"
| "commas [x] = x"
| "commas (x # y # xs) = x @ '','' @ commas (y # xs)"

fun marshal :: "gval \<Rightarrow> bytes" where
  "marshal GNil = ''null''"
| "marshal (GBool b) = (if b then ''true'' else ''false'')"
| "marshal (GInt i) = itoa i"
| "marshal (GString s) = appendString s"
| "marshal (GArray vs) = ''['' @ commas (map marshal vs) @ '']''"
| "marshal (GStruct fs) =
     ''{'' @ commas (map (\<lambda>f. appendString (fst f) @ '':'' @ marshal (snd f)) fs) @ ''}''"

text \<open>\<open>json.Marshal\<close> returns no error for a value of these kinds.\<close>

definition json_Marshal :: "gval \<Rightarrow> string + bytes" where
  "json_Marshal v = Inr (marshal v)"

section \<open>The generic decode helper\<close>

text \<open>
  \<open>roundtrip[C]\<close>. The type parameter \<open>C\<close> enters through \<open>json.Unmarshal(res.Content, &t)\<close>,
  which is the argument \<open>unmarshal\<close>: the decoder of \<open>encoding/json\<close> for the type \<open>C\<close>.
  The body is \<open>None\<close> for \<open>nil\<close>.
\<close>

definition roundtrip ::
  "(bytes \<Rightarrow> (json_error, 'c) outcome) \<Rightarrow> Client \<Rightarrow> string \<Rightarrow> string \<Rightarrow> SessionID \<Rightarrow> gval option
     \<Rightarrow> 'c result \<times> http_Request list" where
  "roundtrip unmarshal c method path session body =
     (case (case body of None \<Rightarrow> Inr None | Some v \<Rightarrow> map_sum id Some (json_Marshal v)) of
        Inl e \<Rightarrow> (Err (Errorf (''marshalling request body: '' @ e)), [])
      | Inr b \<Rightarrow>
          (case request c method path session b of
             (Err e, sent) \<Rightarrow> (Err e, sent)
           | (Panic x, sent) \<Rightarrow> (Panic x, sent)
           | (Ok res, sent) \<Rightarrow>
               (case Content res of
                  None \<Rightarrow> (Err (Errorf ''response body content field is empty''), sent)
                | Some content \<Rightarrow>
                    (case unmarshal content of
                       Err e \<Rightarrow> (Err (ErrorfJSON ''unmarshalling response body: '' e), sent)
                     | Panic x \<Rightarrow> (Panic x, sent)
                     | Ok t \<Rightarrow> (Ok t, sent)))))"

section \<open>Placements and the local check of a move\<close>

text \<open>
  \<^verbatim>\<open>type Placement struct { Column int; Row int; Letter string; Blank bool }\<close>.
  Go's \<open>int\<close> is modelled as \<open>int\<close>: the code only compares, prints and converts these
  fields, it never does arithmetic on them.
\<close>

record Placement =
  Column :: int
  Row :: int
  Letter :: string
  Blank :: bool

definition Place :: "int \<Rightarrow> int \<Rightarrow> string \<Rightarrow> bool \<Rightarrow> Placement" where
  "Place column row letter blank = \<lparr>Column = column, Row = row, Letter = letter, Blank = blank\<rparr>"

text \<open>
  \<open>uniqueSquares\<close>: the slice \<open>positions\<close> is created by
  \<^verbatim>\<open>make([]position, len(placements))\<close>, that is with \<open>len(placements)\<close> zero-valued
  entries \<open>(0, 0)\<close> already in it, and every placement is compared with all entries of
  the slice before its own position is appended.
\<close>

fun collides :: "Placement \<Rightarrow> (int \<times> int) list \<Rightarrow> bool" where
  "collides pl [] = False"
| "collides pl (pos # positions) =
     (if Column pl = fst pos \<and> Row pl = snd pos then True else collides pl positions)"

fun uniqueSquares_loop :: "(int \<times> int) list \<Rightarrow> Placement list \<Rightarrow> bool" where
  "uniqueSquares_loop positions [] = True"
| "uniqueSquares_loop positions (pl # placements) =
     (if collides pl positions then False
      else uniqueSquares_loop (positions @ [(Column pl, Row pl)]) placements)"

definition uniqueSquares :: "Placement list \<Rightarrow> bool" where
  "uniqueSquares placements =
     uniqueSquares_loop (replicate (length placements) (0, 0)) placements"

definition square :: "Placement \<Rightarrow> int \<times> int" where
  "square pl = (Column pl, Row pl)"

section \<open>Session extraction\<close>








section \<open>An endpoint with a typed result\<close>

text \<open>
  \<open>strconv.ParseInt(lit, 10, 64)\<close> on the literal of a JSON number, as the decoder calls
  it for a field of an integer type: digits after an optional minus sign, in the range
  of \<open>int64\<close>.
\<close>

definition nat_of_digits :: "bytes \<Rightarrow> nat" where
  "nat_of_digits ds = foldl (\<lambda>n c. 10 * n + (of_char c - 48)) 0 ds"

definition parse_int64 :: "bytes \<Rightarrow> int option" where
  "parse_int64 l =
     (case (if take 1 l = ''-'' then (True, drop 1 l) else (False, l)) of
        (neg, ds) \<Rightarrow>
          if ds = [] \<or> \<not> list_all is_digit ds then None
          else (case (if neg then - int (nat_of_digits ds) else int (nat_of_digits ds)) of
                  n \<Rightarrow> if - (2 ^ 63) \<le> n \<and> n < 2 ^ 63 then Some n else None))"

text \<open>
  \<^verbatim>\<open>struct { ID GameID `json:"id"` }\<close>, the result type of \<open>AcceptInvitation\<close>; the struct
  is given by its one field.
\<close>

fun ID_members :: "(bytes \<times> bytes \<times> json) list \<Rightarrow> int \<Rightarrow> bool \<Rightarrow> int \<times> bool" where
  "ID_members [] n bad = (n, bad)"
| "ID_members ((k, raw, v) # ms) n bad =
     (if fold_key k = ''id'' then
        (case v of
           JNumber l \<Rightarrow>
             (case parse_int64 l of
                Some m \<Rightarrow> ID_members ms m bad
              | None \<Rightarrow> ID_members ms n True)
         | JNull \<Rightarrow> ID_members ms n bad
         | _ \<Rightarrow> ID_members ms n True)
      else ID_members ms n bad)"

definition unmarshal_ID :: "bytes \<Rightarrow> (json_error, int) outcome" where
  "unmarshal_ID b =
     (case json_parse b of
        None \<Rightarrow> Err SyntaxError
      | Some (JObject ms) \<Rightarrow>
          (case ID_members ms 0 False of
             (n, bad) \<Rightarrow> if bad then Err UnmarshalTypeError else Ok n)
      | Some JNull \<Rightarrow> Ok 0
      | Some _ \<Rightarrow> Err UnmarshalTypeError)"

definition AcceptInvitation ::
  "Client \<Rightarrow> SessionID \<Rightarrow> int \<Rightarrow> int result \<times> http_Request list" where
  "AcceptInvitation c session invitation =
     roundtrip unmarshal_ID c ''POST'' (''/invite/'' @ itoa invitation @ ''/accept'') session None"

section \<open>Clients and responses for the examples\<close>

text \<open>
  A client whose \<open>http.NewRequest\<close> accepts every request and whose server answers every
  request with the response \<open>res\<close>; a response with a status code and a body that is
  read and closed without error.
\<close>

definition client_answering :: "http_Response \<Rightarrow> Client" where
  "client_answering res =
     \<lparr>cl = \<lparr>NewRequest_error = (\<lambda>m u. None), Do = (\<lambda>r. Inr res)\<rparr>,
      baseURL = ''https://game.wordfeud.com/wf''\<rparr>"

definition plain_response :: "int \<Rightarrow> bytes \<Rightarrow> http_Response" where
  "plain_response code b =
     \<lparr>StatusCode = code, ResHeader = (\<lambda>k. []), ResBody = Inr b, ResClose = None\<rparr>"

text \<open>
  The status codes that indicate success in HTTP: the class 2xx. This is the reading of
  the specification's words, to be compared with the test \<open>res.StatusCode == http.StatusOK\<close>
  of the source.
\<close>

definition indicates_success :: "int \<Rightarrow> bool" where
  "indicates_success code \<longleftrightarrow> 200 \<le> code \<and> code < 300"

section \<open>Properties of the local check\<close>

lemma collides_iff: "collides pl positions \<longleftrightarrow> square pl \<in> set positions"
  by (induction positions) (auto simp: square_def)

lemma uniqueSquares_loop_iff:
  "uniqueSquares_loop positions placements \<longleftrightarrow>
     distinct (map square placements) \<and> set (map square placements) \<inter> set positions = {}"
  by (induction placements arbitrary: positions) (auto simp: collides_iff square_def)

lemma uniqueSquares_iff:
  "uniqueSquares placements \<longleftrightarrow>
     distinct (map square placements) \<and> (0, 0) \<notin> set (map square placements)"
proof (cases placements)
  case Nil
  then show ?thesis by (simp add: uniqueSquares_def)
next
  case (Cons pl rest)
  have "set (replicate (length placements) ((0, 0) :: int \<times> int)) = {(0, 0)}"
    using Cons by (simp add: set_replicate_conv_if)
  then show ?thesis
    unfolding uniqueSquares_def uniqueSquares_loop_iff by simp
qed

text \<open>
  C1. A move of one tile on square (0, 0) has pairwise distinct squares, yet the local
  check rejects it: the tile is compared with the zero-valued entry that
  \<open>make([]position, len(placements))\<close> has put into \<open>positions\<close>.
\<close>

theorem uniqueSquares_rejects_origin:
  "distinct (map square [Place 0 0 ''A'' False]) \<and> uniqueSquares [Place 0 0 ''A'' False] = False"
  by (simp add: uniqueSquares_def Place_def)

section \<open>Properties of the transport layer\<close>

lemma request_with_response:
  assumes "NewRequest_error (cl c) method (URL (new_request c method path session body)) = None"
    and "Do (cl c) (new_request c method path session body) = Inr res"
  shows "request c method path session body =
           (request_response res, [new_request c method path session body])"
  using assms by (simp add: request_def)

lemma request_client_answering:
  "request (client_answering res) method path session body =
     (request_response res, [new_request (client_answering res) method path session body])"
  by (simp add: request_def client_answering_def)

lemma itoa_200: "itoa 200 = ''200''"
  by code_simp

lemma itoa_204: "itoa 204 = ''204''"
  by code_simp

lemma itoa_503: "itoa 503 = ''503''"
  by code_simp

text \<open>
  C4 (as amended). For a response with an empty body, read and closed without error:
  \<open>request\<close> succeeds with absent content and the response's headers if the status code
  is exactly 200, and fails with the error \<open>status code N (no body)\<close> for every other
  status code \<open>N\<close>. The body is not parsed on either path.
\<close>

theorem request_empty_body:
  assumes "NewRequest_error (cl c) method (URL (new_request c method path session body)) = None"
    and "Do (cl c) (new_request c method path session body) = Inr res"
    and "ResBody res = Inr []" and "ResClose res = None"
  shows "fst (request c method path session body) =
           (if StatusCode res = 200 then Ok \<lparr>Content = None, Header = ResHeader res\<rparr>
            else Err (Errorf (''status code '' @ itoa (StatusCode res) @ '' (no body)'')))"
  using assms by (simp add: request_with_response request_response_def StatusOK_def)

theorem request_empty_body_witness:
  "fst (request (client_answering (plain_response 200 [])) ''POST'' ''/invite/7/reject'' ''s'' None)
     = Ok \<lparr>Content = None, Header = (\<lambda>k. [])\<rparr>
   \<and> fst (request (client_answering (plain_response 404 [])) ''POST'' ''/invite/7/reject'' ''s'' None)
     = Err (Errorf (''status code '' @ itoa 404 @ '' (no body)''))"
  using request_empty_body [of "client_answering (plain_response 200 [])" "''POST''"
      "''/invite/7/reject''" "''s''" None "plain_response 200 []"]
    request_empty_body [of "client_answering (plain_response 404 [])" "''POST''"
      "''/invite/7/reject''" "''s''" None "plain_response 404 []"]
  by (simp add: client_answering_def plain_response_def)

text \<open>
  C4 as stated fails for the success codes other than 200: an empty response with
  status 204 (No Content) is answered with an error.
\<close>

theorem request_empty_body_204:
  "indicates_success 204 \<and>
   fst (request (client_answering (plain_response 204 [])) ''POST'' ''/invite/7/reject'' ''s'' None)
     = Err (Errorf ''status code 204 (no body)'')"
  by (simp add: indicates_success_def request_client_answering request_response_def
      plain_response_def StatusOK_def itoa_204)

text \<open>
  C5. For a response with status code 500 or above, read and closed without error,
  \<open>request\<close> fails with an error whose text contains the status code in decimal and the
  raw body; the text is \<open>status code N: body\<close> (\<open>status code N (no body)\<close> when the body
  is empty), whatever the body is, so the body is never parsed.
\<close>

theorem request_server_fault:
  assumes "NewRequest_error (cl c) method (URL (new_request c method path session body)) = None"
    and "Do (cl c) (new_request c method path session body) = Inr res"
    and "ResBody res = Inr bodyBytes" and "ResClose res = None"
    and "500 \<le> StatusCode res"
  shows "\<exists>msg. fst (request c method path session body) = Err (Errorf msg)
           \<and> sublist (itoa (StatusCode res)) msg \<and> sublist bodyBytes msg
           \<and> msg = ''status code '' @ itoa (StatusCode res)
                 @ (if bodyBytes = [] then '' (no body)'' else '': '' @ bodyBytes)"
proof -
  let ?tail = "if bodyBytes = [] then '' (no body)'' else '': '' @ bodyBytes"
  let ?msg = "''status code '' @ itoa (StatusCode res) @ ?tail"
  have res: "fst (request c method path session body) = Err (Errorf ?msg)"
    using assms
    by (simp add: request_with_response request_response_def StatusOK_def
        StatusInternalServerError_def)
  have code: "sublist (itoa (StatusCode res)) ?msg"
    by (rule sublist_appendI)
  have "sublist bodyBytes ?tail"
  proof (cases "bodyBytes = []")
    case True
    then show ?thesis by (simp only: sublist_Nil_left)
  next
    case False
    have "sublist bodyBytes ('': '' @ bodyBytes)" by (rule sublist_append_leftI)
    with False show ?thesis by (simp only: if_False)
  qed
  moreover have "sublist ?tail ?msg"
    using sublist_append_leftI [of ?tail "''status code '' @ itoa (StatusCode res)"]
    by (simp only: append_assoc)
  ultimately have inbody: "sublist bodyBytes ?msg"
    by (rule sublist_order.order_trans)
  from res code inbody show ?thesis by blast
qed

theorem request_server_fault_witness:
  "\<exists>msg. fst (request (client_answering (plain_response 503 ''<html>Service Unavailable</html>''))
             ''GET'' ''/user/games'' ''s'' None) = Err (Errorf msg)
    \<and> msg = ''status code 503: <html>Service Unavailable</html>''"
  using request_server_fault [of "client_answering (plain_response 503 ''<html>Service Unavailable</html>'')"
      "''GET''" "''/user/games''" "''s''" None
      "plain_response 503 ''<html>Service Unavailable</html>''"
      "''<html>Service Unavailable</html>''"]
  by (simp add: client_answering_def plain_response_def itoa_503)

lemma sentinel_names:
  "map fst sentinels =
     [''access_denied'', ''already_exists'', ''duplicate_invite'', ''game_over'', ''illegal_move'',
      ''illegal_tiles'', ''illegal_user_self'', ''illegal_word'', ''invalid_board_type'',
      ''invalid_id'', ''invalid_ruleset'', ''login_required'', ''not_found'', ''not_your_turn'',
      ''unknown_email'', ''user_not_found'', ''wrong_password'']"
  by (simp add: sentinels_def)

lemma sentinel_keys_distinct: "distinct (map fst sentinels)"
  unfolding sentinel_names by simp

lemma sentinel_values_distinct: "distinct (map snd sentinels)"
  by (simp add: sentinels_def)

text \<open>
  C2. For a response that is read and closed without error, with a non-empty body and
  a status code below 500, whose body decodes as an envelope with status \<open>error\<close> and
  whose content decodes to an error descriptor \<open>e\<close>: \<open>request\<close> fails with the error
  that \<open>convertToSentinel\<close> gives for \<open>e\<close>, whatever the status code is. That is the
  sentinel of \<open>e\<close>'s type if the type is one of the seventeen known codes, which have
  pairwise distinct sentinels, and otherwise the descriptor itself, with its type and
  message.
\<close>

theorem request_error_envelope:
  assumes "NewRequest_error (cl c) method (URL (new_request c method path session body)) = None"
    and "Do (cl c) (new_request c method path session body) = Inr res"
    and "ResBody res = Inr bodyBytes" and "ResClose res = None"
    and "bodyBytes \<noteq> []" and "StatusCode res < 500"
    and "unmarshal_responseBody bodyBytes = Inr rb" and "Status rb = ''error''"
    and "unmarshal_apiError (case RawContent rb of None \<Rightarrow> [] | Some raw \<Rightarrow> raw) = Inr (Some e)"
  shows "fst (request c method path session body) =
           Err (case map_of sentinels (Type e) of Some s \<Rightarrow> s | None \<Rightarrow> ApiError e)
         \<and> (\<forall>s. (Type e, s) \<in> set sentinels \<longrightarrow> fst (request c method path session body) = Err s)
         \<and> (Type e \<notin> set (map fst sentinels) \<longrightarrow>
              fst (request c method path session body) = Err (ApiError e))
         \<and> length sentinels = 17 \<and> distinct (map fst sentinels) \<and> distinct (map snd sentinels)"
proof -
  have r: "fst (request c method path session body) =
           Err (case map_of sentinels (Type e) of Some s \<Rightarrow> s | None \<Rightarrow> ApiError e)"
    using assms
    by (simp add: request_with_response request_response_def StatusInternalServerError_def
        convertToSentinel_def split: option.splits)
  have known: "fst (request c method path session body) = Err s"
    if "(Type e, s) \<in> set sentinels" for s
    using r map_of_is_SomeI [OF sentinel_keys_distinct that] by simp
  have unknown: "fst (request c method path session body) = Err (ApiError e)"
    if "Type e \<notin> set (map fst sentinels)"
  proof -
    from that have "map_of sentinels (Type e) = None"
      by (simp add: map_of_eq_None_iff)
    with r show ?thesis by simp
  qed
  have "length sentinels = 17" by (simp add: sentinels_def)
  with r known unknown sentinel_keys_distinct sentinel_values_distinct show ?thesis by blast
qed

lemma unmarshal_responseBody_example: \<open>unmarshal_responseBody ''{"status":"error","content":{"type":"not_your_turn","message":"x"}}''
   = Inr \<lparr>Status = ''error'', RawContent = Some ''{"type":"not_your_turn","message":"x"}''\<rparr>\<close>
  by code_simp

lemma unmarshal_apiError_example: \<open>unmarshal_apiError ''{"type":"not_your_turn","message":"x"}''
   = Inr (Some \<lparr>Type = ''not_your_turn'', Message = ''x''\<rparr>)\<close>
  by code_simp

theorem request_error_envelope_witness:
  \<open>fst (request (client_answering (plain_response 200
       ''{"status":"error","content":{"type":"not_your_turn","message":"x"}}''))
       ''POST'' ''/game/5/pass'' ''s'' None) = Err ErrNotYourTurn\<close>
  using request_error_envelope [of
      \<open>client_answering (plain_response 200
       ''{"status":"error","content":{"type":"not_your_turn","message":"x"}}'')\<close>
      "''POST''" "''/game/5/pass''" "''s''" None
      \<open>plain_response 200 ''{"status":"error","content":{"type":"not_your_turn","message":"x"}}''\<close>
      \<open>''{"status":"error","content":{"type":"not_your_turn","message":"x"}}''\<close>
      \<open>\<lparr>Status = ''error'', RawContent = Some ''{"type":"not_your_turn","message":"x"}''\<rparr>\<close>
      \<open>\<lparr>Type = ''not_your_turn'', Message = ''x''\<rparr>\<close>]
  by (simp add: client_answering_def plain_response_def unmarshal_responseBody_example unmarshal_apiError_example sentinels_def)

section \<open>Properties of the decode helper\<close>

text \<open>
  C7. When the call of \<open>request\<close> succeeds with the response \<open>res\<close>: \<open>roundtrip\<close> fails
  with \<open>response body content field is empty\<close> if the content is absent; otherwise it
  decodes the content into the target type, returns the decoded value if decoding
  succeeds and the decoder's error, wrapped, if it fails. No further request is made.
\<close>

theorem roundtrip_decodes:
  assumes "request c method path session (map_option marshal body) = (Ok res, sent)"
  shows "(Content res = None \<longrightarrow>
            roundtrip unmarshal c method path session body
              = (Err (Errorf ''response body content field is empty''), sent))
       \<and> (\<forall>content t. Content res = Some content \<and> unmarshal content = Ok t \<longrightarrow>
            roundtrip unmarshal c method path session body = (Ok t, sent))
       \<and> (\<forall>content e. Content res = Some content \<and> unmarshal content = Err e \<longrightarrow>
            roundtrip unmarshal c method path session body
              = (Err (ErrorfJSON ''unmarshalling response body: '' e), sent))"
proof -
  have b: "(case body of None \<Rightarrow> Inr None | Some v \<Rightarrow> map_sum id Some (json_Marshal v))
             = Inr (map_option marshal body)"
    by (cases body) (simp_all add: json_Marshal_def)
  show ?thesis
    unfolding roundtrip_def b using assms by simp
qed

lemma envelope_with_id: \<open>unmarshal_responseBody ''{"status":"success","content":{"id":42}}''
   = Inr \<lparr>Status = ''success'', RawContent = Some ''{"id":42}''\<rparr>\<close>
  by code_simp

lemma unmarshal_ID_example: \<open>unmarshal_ID ''{"id":42}'' = Ok 42\<close>
  by code_simp

lemma envelope_with_bad_id: \<open>unmarshal_responseBody ''{"status":"success","content":{"id":"x"}}''
   = Inr \<lparr>Status = ''success'', RawContent = Some ''{"id":"x"}''\<rparr>\<close>
  by code_simp

lemma unmarshal_ID_bad_example: \<open>unmarshal_ID ''{"id":"x"}'' = Err UnmarshalTypeError\<close>
  by code_simp

lemma envelope_without_content: \<open>unmarshal_responseBody ''{"status":"success"}''
   = Inr \<lparr>Status = ''success'', RawContent = None\<rparr>\<close>
  by code_simp

theorem roundtrip_decodes_witness:
  \<open>fst (AcceptInvitation (client_answering (plain_response 200
          ''{"status":"success","content":{"id":42}}'')) ''s'' 7) = Ok 42
   \<and> fst (AcceptInvitation (client_answering (plain_response 200
          ''{"status":"success","content":{"id":"x"}}'')) ''s'' 7)
       = Err (ErrorfJSON ''unmarshalling response body: '' UnmarshalTypeError)
   \<and> fst (AcceptInvitation (client_answering (plain_response 200
          ''{"status":"success"}'')) ''s'' 7)
       = Err (Errorf ''response body content field is empty'')\<close>
proof -
  let ?ok = \<open>plain_response 200 ''{"status":"success","content":{"id":42}}''\<close>
  let ?bad = \<open>plain_response 200 ''{"status":"success","content":{"id":"x"}}''\<close>
  let ?none = \<open>plain_response 200 ''{"status":"success"}''\<close>
  let ?p = "''/invite/'' @ itoa 7 @ ''/accept''"
  have 1: "request (client_answering ?ok) ''POST'' ?p ''s'' (map_option marshal None)
      = (Ok \<lparr>Content = Some ''{\"id\":42}'', Header = (\<lambda>k. [])\<rparr>,
         [new_request (client_answering ?ok) ''POST'' ?p ''s'' None])"
    by (simp add: request_client_answering request_response_def plain_response_def
        StatusInternalServerError_def envelope_with_id)
  have 2: "request (client_answering ?bad) ''POST'' ?p ''s'' (map_option marshal None)
      = (Ok \<lparr>Content = Some ''{\"id\":\"x\"}'', Header = (\<lambda>k. [])\<rparr>,
         [new_request (client_answering ?bad) ''POST'' ?p ''s'' None])"
    by (simp add: request_client_answering request_response_def plain_response_def
        StatusInternalServerError_def envelope_with_bad_id)
  have 3: "request (client_answering ?none) ''POST'' ?p ''s'' (map_option marshal None)
      = (Ok \<lparr>Content = None, Header = (\<lambda>k. [])\<rparr>,
         [new_request (client_answering ?none) ''POST'' ?p ''s'' None])"
    by (simp add: request_client_answering request_response_def plain_response_def
        StatusInternalServerError_def envelope_without_content)
  show ?thesis
    using roundtrip_decodes [OF 1, of unmarshal_ID] roundtrip_decodes [OF 2, of unmarshal_ID]
      roundtrip_decodes [OF 3, of unmarshal_ID]
    by (simp add: AcceptInvitation_def unmarshal_ID_example unmarshal_ID_bad_example)
qed


section \<open>Properties of session extraction\<close>













end
